theory Spec2Isabelle
  imports Complex_Main "HOL-Library.Product_Lexorder"
begin

section \<open>The A/B testing views of wagtail-ab-testing\<close>

text \<open>
  A shallow embedding of \<^verbatim>\<open>wagtail_ab_testing/views.py\<close>: the checks and the form view
  that create an A/B test (\<^verbatim>\<open>add_ab_test_checks\<close>, \<^verbatim>\<open>add_form\<close>) and the progress view
  (\<^verbatim>\<open>progress\<close>), whose POST branch drives the life cycle of a test and whose GET branch
  computes the statistics and the chart data.

  Conventions. A \<^verbatim>\<open>datetime.date\<close> is its proleptic Gregorian ordinal (the day number of
  \<^verbatim>\<open>date.toordinal()\<close>), an \<open>int\<close>; the dates that exist are the ordinals from 1 to 3652059
  (the last day of the year 9999). Counts stored in the database are \<open>nat\<close>. A Python float
  is a \<open>real\<close>, and an operation on floats is the exact operation followed by a rounding
  \<open>rnd\<close>, a parameter of the model: the round-to-nearest of binary64 is one rounding, the
  identity (exact arithmetic) another; a statement that depends on the accuracy of the
  rounding assumes a bound on its relative error (\<open>rounds_within\<close>). An exception is a value
  of \<open>py_error\<close>, returned as \<open>Inl\<close>.
\<close>

subsection \<open>Data model\<close>

text \<open>\<^verbatim>\<open>AbTest.Variant\<close> and \<^verbatim>\<open>AbTest.Status\<close>. The view names the members \<^verbatim>\<open>CONTROL\<close>,
  \<^verbatim>\<open>TREATMENT\<close>, \<^verbatim>\<open>DRAFT\<close>, \<^verbatim>\<open>RUNNING\<close> and \<^verbatim>\<open>PAUSED\<close>.\<close>

datatype Variant = CONTROL | TREATMENT

text \<open>Modelled from the spec: the declaration of \<^verbatim>\<open>AbTest.Status\<close> is in \<^verbatim>\<open>models.py\<close>;
  the specification gives the status as one of Draft, Running, Paused, Finished.\<close>

datatype Status = DRAFT | RUNNING | PAUSED | FINISHED

text \<open>Modelled from the spec: the declaration of the hourly log rows is in \<^verbatim>\<open>models.py\<close>;
  the specification gives a row as a calendar date, an hour of the day, a variant and the
  two counts \<open>participants\<close> and \<open>conversions\<close>.\<close>

record HourlyLog =
  date :: int
  hour :: nat
  variant :: Variant
  participants :: nat
  conversions :: nat

text \<open>An entry of \<^verbatim>\<open>time_series\<close>: the dictionary with the keys \<^verbatim>\<open>'date'\<close>, \<^verbatim>\<open>'control'\<close>
  and \<^verbatim>\<open>'treatment'\<close>.\<close>

record data_point =
  date_point :: int
  control_point :: nat
  treatment_point :: nat

subsection \<open>The time series of the progress view\<close>

text \<open>\<^verbatim>\<open>ab_test.hourly_logs.order_by('date', 'hour')\<close>: the rows sorted by the key
  (date, hour), lexicographically. Rows with equal keys keep their order.\<close>

definition order_by_date_hour :: "HourlyLog list \<Rightarrow> HourlyLog list" where
  "order_by_date_hour hourly_logs = sort_key (\<lambda>row. (date row, hour row)) hourly_logs"

text \<open>
  The inner loop
  \<^verbatim>\<open>
    while date is None or date < log.date:
        if date is None:
            date = log.date
        else:
            date += datetime.timedelta(days=1)
        time_series.append({'date': date, 'control': control, 'treatment': treatment})
  \<close>
  on the variables it reads and writes; the variable \<^verbatim>\<open>date\<close> is \<open>day\<close> here (\<open>date\<close> is
  the field of a row). It returns the new \<open>day\<close> and \<open>time_series\<close>.
\<close>

function fill_days ::
  "int option \<Rightarrow> int \<Rightarrow> nat \<Rightarrow> nat \<Rightarrow> data_point list \<Rightarrow> int option \<times> data_point list"
where
  "fill_days day log_date control treatment time_series =
     (case day of
        None \<Rightarrow>
          fill_days (Some log_date) log_date control treatment
            (time_series @
               [\<lparr>date_point = log_date, control_point = control, treatment_point = treatment\<rparr>])
      | Some d \<Rightarrow>
          if d < log_date then
            fill_days (Some (d + 1)) log_date control treatment
              (time_series @
                 [\<lparr>date_point = d + 1, control_point = control, treatment_point = treatment\<rparr>])
          else (day, time_series))"
  by pat_completeness auto
termination
  by (relation "measure (\<lambda>(day, log_date, control, treatment, time_series).
        case day of None \<Rightarrow> 1 | Some d \<Rightarrow> nat (log_date - d))") auto

declare fill_days.simps [simp del]

text \<open>
  The outer loop \<^verbatim>\<open>for log in ab_test.hourly_logs.order_by('date', 'hour')\<close>: the
  conversions of the row (\<^verbatim>\<open>log\<close>, here \<open>row\<close>) are added to the counter of its variant, then
  the inner loop runs.
\<close>

fun series_loop ::
  "HourlyLog list \<Rightarrow> nat \<Rightarrow> nat \<Rightarrow> int option \<Rightarrow> data_point list \<Rightarrow> data_point list"
where
  "series_loop [] control treatment day time_series = time_series"
| "series_loop (row # logs) control treatment day time_series =
     (let control' = (if variant row = CONTROL then control + conversions row else control);
          treatment' = (if variant row = CONTROL then treatment else treatment + conversions row);
          (day', time_series') = fill_days day (date row) control' treatment' time_series
      in series_loop logs control' treatment' day' time_series')"

definition time_series :: "HourlyLog list \<Rightarrow> data_point list" where
  "time_series hourly_logs = series_loop (order_by_date_hour hourly_logs) 0 0 None []"

subsection \<open>Exceptions, messages and responses\<close>

text \<open>\<^verbatim>\<open>PermissionDenied\<close> is raised by the checks, \<^verbatim>\<open>ZeroDivisionError\<close> by a division,
  \<^verbatim>\<open>OverflowError\<close> by \<^verbatim>\<open>datetime\<close> when a duration or a date is out of range.\<close>

datatype py_error = PermissionDenied | ZeroDivisionError | OverflowError

text \<open>A message of \<^verbatim>\<open>wagtail.admin.messages\<close>: \<^verbatim>\<open>messages.success\<close> or \<^verbatim>\<open>messages.error\<close>
  and its text.\<close>

datatype level = SUCCESS | ERROR

type_synonym message = "level \<times> string"

text \<open>\<^verbatim>\<open>redirect(name, id)\<close> and \<^verbatim>\<open>render(request, template, context)\<close>.\<close>

datatype 'c HttpResponse = Redirect string nat | Render string 'c

subsection \<open>Pages, users, requests and A/B tests\<close>

text \<open>What the views read of a page: \<^verbatim>\<open>page.id\<close>, \<^verbatim>\<open>page.live\<close>,
  \<^verbatim>\<open>page.has_unpublished_changes\<close> and \<^verbatim>\<open>page.get_latest_revision()\<close>.\<close>

record Page =
  page_id :: nat
  live :: bool
  has_unpublished_changes :: bool
  latest_revision :: nat

text \<open>What the views ask of a user: \<^verbatim>\<open>page.permissions_for_user(user).can_edit()\<close> is
  membership of the page in \<open>can_edit_pages\<close>, \<^verbatim>\<open>user.has_perm(p)\<close> membership of \<open>p\<close> in
  \<open>perms\<close>.\<close>

record User =
  user_id :: nat
  can_edit_pages :: "nat list"
  perms :: "string list"

text \<open>\<^verbatim>\<open>request.method\<close> is the field \<open>request_method\<close>. \<^verbatim>\<open>request.POST\<close> is the list of the
  submitted (key, value) pairs; \<^verbatim>\<open>k in request.POST\<close> is \<open>k \<in> set (map fst (POST request))\<close>.\<close>

record Request =
  user :: User
  request_method :: string
  POST :: "(string \<times> string) list"

text \<open>Modelled from the spec: the declaration of \<^verbatim>\<open>AbTest\<close> is in \<^verbatim>\<open>models.py\<close>. The fields
  are those the views read or set; \<open>sample_size\<close> is the target number of participants.\<close>

record AbTest =
  name :: string
  page :: nat
  treatment_revision :: nat
  created_by :: nat
  sample_size :: nat
  status :: Status
  winning_variant :: "Variant option"
  hourly_logs :: "HourlyLog list"

text \<open>The methods of \<^verbatim>\<open>AbTest\<close> that the views call and \<^verbatim>\<open>models.py\<close> defines are parameters
  of the model: \<^verbatim>\<open>ab_test.start()\<close>, \<^verbatim>\<open>ab_test.pause()\<close>, \<^verbatim>\<open>ab_test.finish(cancel=...)\<close>, and
  \<^verbatim>\<open>ab_test.total_running_duration().days\<close>.\<close>

record AbTest_methods =
  start :: "AbTest \<Rightarrow> AbTest"
  pause :: "AbTest \<Rightarrow> AbTest"
  finish :: "bool \<Rightarrow> AbTest \<Rightarrow> AbTest"
  total_running_duration_days :: "AbTest \<Rightarrow> int"

text \<open>The state the views change: the table of A/B tests and the messages queued for the
  user.\<close>

record State =
  ab_tests :: "AbTest list"
  messages :: "message list"

text \<open>Modelled from the spec: \<^verbatim>\<open>AbTest.objects.get_current_for_page\<close> is in \<^verbatim>\<open>models.py\<close>.
  The current test of a page is a test of that page whose status is Draft, Running or
  Paused.\<close>

definition get_current_for_page :: "AbTest list \<Rightarrow> Page \<Rightarrow> AbTest option" where
  "get_current_for_page objects p =
     find (\<lambda>ab_test. page ab_test = page_id p \<and> status ab_test \<in> {DRAFT, RUNNING, PAUSED}) objects"

subsection \<open>Creating an A/B test\<close>

text \<open>
  \<^verbatim>\<open>add_ab_test_checks(request, page)\<close>. It raises \<^verbatim>\<open>PermissionDenied\<close>, returns a redirect
  after queueing an error message, or returns nothing (\<open>None\<close>) when every check passes.
\<close>

definition add_ab_test_checks ::
  "Request \<Rightarrow> Page \<Rightarrow> State \<Rightarrow> (py_error + unit HttpResponse option) \<times> State"
where
  "add_ab_test_checks request p s =
     (if page_id p \<notin> set (can_edit_pages (user request)) then (Inl PermissionDenied, s)
      else if ''wagtail_ab_testing.add_abtest'' \<notin> set (perms (user request)) then
        (Inl PermissionDenied, s)
      else if get_current_for_page (ab_tests s) p \<noteq> None then
        (Inr (Some (Redirect ''wagtailadmin_pages:edit'' (page_id p))),
         s\<lparr>messages := messages s @ [(ERROR, ''This page already has a running A/B test'')]\<rparr>)
      else if \<not> live p \<or> \<not> has_unpublished_changes p then
        (Inr (Some (Redirect ''wagtailadmin_pages:edit'' (page_id p))),
         s\<lparr>messages := messages s @
            [(ERROR, ''To run an A/B test on this page, it must be live with draft changes.'')]\<rparr>)
      else (Inr None, s))"

text \<open>\<^verbatim>\<open>CreateAbTestForm.save(page, treatment_revision, user)\<close>: the instance built from the
  form data gets its page, revision and creator and is inserted into the table.\<close>

definition CreateAbTestForm_save :: "AbTest \<Rightarrow> Page \<Rightarrow> nat \<Rightarrow> User \<Rightarrow> AbTest" where
  "CreateAbTestForm_save instance p revision u =
     instance\<lparr>page := page_id p, treatment_revision := revision, created_by := user_id u\<rparr>"

text \<open>
  \<^verbatim>\<open>add_form(request, page_id)\<close>, from the page that \<^verbatim>\<open>get_object_or_404\<close> found. The
  parameter \<open>form\<close> is \<^verbatim>\<open>CreateAbTestForm(request.POST)\<close> with its validation: \<open>None\<close> when
  \<^verbatim>\<open>is_valid()\<close> is false, otherwise the instance built from the data. The stored row is the
  saved test, started when the key \<^verbatim>\<open>'start'\<close> was posted.
\<close>

definition add_form ::
  "((string \<times> string) list \<Rightarrow> AbTest option) \<Rightarrow> AbTest_methods \<Rightarrow> Request \<Rightarrow> Page \<Rightarrow> State
     \<Rightarrow> (py_error + unit HttpResponse) \<times> State"
where
  "add_form form m request p s =
     (case add_ab_test_checks request p s of
        (Inl e, s') \<Rightarrow> (Inl e, s')
      | (Inr (Some response), s') \<Rightarrow> (Inr response, s')
      | (Inr None, s') \<Rightarrow>
          if request_method request = ''POST'' then
            (case form (POST request) of
               Some instance \<Rightarrow>
                 (let ab_test = CreateAbTestForm_save instance p (latest_revision p) (user request);
                      ab_test' = (if ''start'' \<in> set (map fst (POST request))
                                  then start m ab_test else ab_test)
                  in (Inr (Redirect ''wagtailadmin_pages:edit'' (page_id p)),
                      s'\<lparr>ab_tests := ab_tests s' @ [ab_test']\<rparr>))
             | None \<Rightarrow> (Inr (Render ''wagtail_ab_testing/add_form.html'' ()), s'))
          else (Inr (Render ''wagtail_ab_testing/add_form.html'' ()), s'))"

subsection \<open>The progress view: actions\<close>

text \<open>
  The POST branch of \<^verbatim>\<open>progress(request, page, ab_test)\<close>: the \<^verbatim>\<open>if\<close>/\<^verbatim>\<open>elif\<close> chain over the
  posted keys. It returns the A/B test after the action and the messages it queued.
\<close>

definition progress_post :: "AbTest_methods \<Rightarrow> Request \<Rightarrow> AbTest \<Rightarrow> AbTest \<times> message list" where
  "progress_post m request ab_test =
     (if ''action-start-ab-test'' \<in> set (map fst (POST request))
         \<or> ''action-restart-ab-test'' \<in> set (map fst (POST request)) then
        (if status ab_test \<in> {DRAFT, PAUSED} then
           (start m ab_test, [(SUCCESS, ''A/B test started!'')])
         else
           (ab_test,
            [(ERROR, ''The A/B test must be in draft or paused in order to be started.'')]))
      else if ''action-end-ab-test'' \<in> set (map fst (POST request)) then
        (if status ab_test \<in> {DRAFT, RUNNING, PAUSED} then (finish m True ab_test, [])
         else (ab_test, [(ERROR, ''The A/B test has already ended.'')]))
      else if ''action-pause-ab-test'' \<in> set (map fst (POST request)) then
        (if status ab_test = RUNNING then (pause m ab_test, [])
         else
           (ab_test, [(ERROR, ''The A/B test cannot be paused because it is not running.'')]))
      else (ab_test, [(ERROR, ''Unknown action'')]))"

subsection \<open>The progress view: statistics\<close>

text \<open>\<^verbatim>\<open>Sum(field, filter=Q(variant=v))\<close> in \<^verbatim>\<open>aggregate\<close>: the sum over the rows of the variant,
  and \<^verbatim>\<open>None\<close> (SQL \<^verbatim>\<open>NULL\<close>) when no row matches.\<close>

definition Sum_filter :: "(HourlyLog \<Rightarrow> nat) \<Rightarrow> Variant \<Rightarrow> HourlyLog list \<Rightarrow> nat option" where
  "Sum_filter field v rows =
     (case filter (\<lambda>row. variant row = v) rows of
        [] \<Rightarrow> None
      | r # rs \<Rightarrow> Some (sum_list (map field (r # rs))))"

text \<open>\<^verbatim>\<open>x or 0\<close> on an optional count: \<^verbatim>\<open>None\<close> and \<^verbatim>\<open>0\<close> are falsy.\<close>

definition or_0 :: "nat option \<Rightarrow> nat" where
  "or_0 x = (case x of None \<Rightarrow> 0 | Some n \<Rightarrow> if n = 0 then 0 else n)"

definition control_participants :: "HourlyLog list \<Rightarrow> nat" where
  "control_participants rows = or_0 (Sum_filter participants CONTROL rows)"

definition control_conversions :: "HourlyLog list \<Rightarrow> nat" where
  "control_conversions rows = or_0 (Sum_filter conversions CONTROL rows)"

definition treatment_participants :: "HourlyLog list \<Rightarrow> nat" where
  "treatment_participants rows = or_0 (Sum_filter participants TREATMENT rows)"

definition treatment_conversions :: "HourlyLog list \<Rightarrow> nat" where
  "treatment_conversions rows = or_0 (Sum_filter conversions TREATMENT rows)"

definition current_sample_size :: "HourlyLog list \<Rightarrow> nat" where
  "current_sample_size rows = control_participants rows + treatment_participants rows"

text \<open>Python's \<^verbatim>\<open>a / b\<close>, which raises on a zero divisor, and \<^verbatim>\<open>int(x)\<close>, which truncates
  towards zero.\<close>

definition truediv :: "(real \<Rightarrow> real) \<Rightarrow> real \<Rightarrow> real \<Rightarrow> py_error + real" where
  "truediv rnd a b = (if b = 0 then Inl ZeroDivisionError else Inr (rnd (a / b)))"

definition py_int :: "real \<Rightarrow> int" where
  "py_int x = (if 0 \<le> x then \<lfloor>x\<rfloor> else \<lceil>x\<rceil>)"

text \<open>
  \<^verbatim>\<open>datetime.timedelta(days=x)\<close> for a float \<open>x\<close>, as far as a date can see it: its attribute
  \<^verbatim>\<open>days\<close>, the floor of \<open>x\<close> (the rounding of \<open>x\<close> to whole microseconds is left out). The
  constructor raises \<^verbatim>\<open>OverflowError\<close> when the days exceed 999999999 in magnitude.
\<close>

definition timedelta_days :: "real \<Rightarrow> py_error + int" where
  "timedelta_days x =
     (if - 999999999 \<le> \<lfloor>x\<rfloor> \<and> \<lfloor>x\<rfloor> \<le> 999999999 then Inr \<lfloor>x\<rfloor> else Inl OverflowError)"

text \<open>\<^verbatim>\<open>date + timedelta\<close>: the date moves by the days of the \<^verbatim>\<open>timedelta\<close>, and
  \<^verbatim>\<open>OverflowError\<close> is raised when the result is not a date.\<close>

definition date_add :: "int \<Rightarrow> int \<Rightarrow> py_error + int" where
  "date_add d n = (if 0 < d + n \<and> d + n \<le> 3652059 then Inr (d + n) else Inl OverflowError)"

text \<open>
  The estimated completion date, with \<open>today\<close> for \<^verbatim>\<open>timezone.now().date()\<close>:
  \<^verbatim>\<open>
    estimated_completion_date = None
    if ab_test.status == AbTest.Status.RUNNING and current_sample_size:
        running_duration_days = ab_test.total_running_duration().days
        if running_duration_days > 0:
            participants_per_day = current_sample_size / ab_test.total_running_duration().days
            estimated_days_remaining = (ab_test.sample_size - current_sample_size) / participants_per_day
            estimated_completion_date = timezone.now().date() + datetime.timedelta(days=estimated_days_remaining)
  \<close>
\<close>

definition estimated_completion_date ::
  "(real \<Rightarrow> real) \<Rightarrow> AbTest_methods \<Rightarrow> AbTest \<Rightarrow> int \<Rightarrow> py_error + int option"
where
  "estimated_completion_date rnd m ab_test today =
     (if status ab_test = RUNNING \<and> current_sample_size (hourly_logs ab_test) \<noteq> 0 then
        (let running_duration_days = total_running_duration_days m ab_test in
         if running_duration_days > 0 then
           (case truediv rnd (real (current_sample_size (hourly_logs ab_test)))
                   (real_of_int (total_running_duration_days m ab_test)) of
              Inl e \<Rightarrow> Inl e
            | Inr participants_per_day \<Rightarrow>
                (case truediv rnd
                        (real_of_int (int (sample_size ab_test)
                                       - int (current_sample_size (hourly_logs ab_test))))
                        participants_per_day of
                   Inl e \<Rightarrow> Inl e
                 | Inr estimated_days_remaining \<Rightarrow>
                     (case timedelta_days estimated_days_remaining of
                        Inl e \<Rightarrow> Inl e
                      | Inr days \<Rightarrow>
                          (case date_add today days of
                             Inl e \<Rightarrow> Inl e
                           | Inr estimate \<Rightarrow> Inr (Some estimate)))))
         else Inr None)
      else Inr None)"

text \<open>\<^verbatim>\<open>int(a / b * 100)\<close>, and the guarded form
  \<^verbatim>\<open>int(conversions / participants * 100) if participants else 0\<close>.\<close>

definition percent :: "(real \<Rightarrow> real) \<Rightarrow> nat \<Rightarrow> nat \<Rightarrow> py_error + int" where
  "percent rnd a b =
     (case truediv rnd (real a) (real b) of
        Inl e \<Rightarrow> Inl e
      | Inr q \<Rightarrow> Inr (py_int (rnd (q * 100))))"

definition conversions_percent :: "(real \<Rightarrow> real) \<Rightarrow> nat \<Rightarrow> nat \<Rightarrow> py_error + int" where
  "conversions_percent rnd conversions' participants' =
     (if participants' \<noteq> 0 then percent rnd conversions' participants' else Inr 0)"

text \<open>The three percentages of the template context, evaluated in the order of the
  dictionary: \<^verbatim>\<open>current_sample_size_percent\<close>, \<^verbatim>\<open>control_conversions_percent\<close>,
  \<^verbatim>\<open>treatment_conversions_percent\<close>.\<close>

definition progress_percentages ::
  "(real \<Rightarrow> real) \<Rightarrow> AbTest \<Rightarrow> py_error + int \<times> int \<times> int"
where
  "progress_percentages rnd ab_test =
     (case percent rnd (current_sample_size (hourly_logs ab_test)) (sample_size ab_test) of
        Inl e \<Rightarrow> Inl e
      | Inr current_sample_size_percent \<Rightarrow>
          (case conversions_percent rnd (control_conversions (hourly_logs ab_test))
                  (control_participants (hourly_logs ab_test)) of
             Inl e \<Rightarrow> Inl e
           | Inr control_conversions_percent \<Rightarrow>
               (case conversions_percent rnd (treatment_conversions (hourly_logs ab_test))
                       (treatment_participants (hourly_logs ab_test)) of
                  Inl e \<Rightarrow> Inl e
                | Inr treatment_conversions_percent \<Rightarrow>
                    Inr (current_sample_size_percent, control_conversions_percent,
                         treatment_conversions_percent))))"

text \<open>The template context of the progress page; \<open>ctx_chart_data\<close> holds the three columns of
  the chart.\<close>

record progress_context =
  ctx_current_sample_size :: nat
  ctx_current_sample_size_percent :: int
  ctx_control_conversions :: nat
  ctx_control_participants :: nat
  ctx_control_conversions_percent :: int
  ctx_treatment_conversions :: nat
  ctx_treatment_participants :: nat
  ctx_treatment_conversions_percent :: int
  ctx_control_is_winner :: bool
  ctx_treatment_is_winner :: bool
  ctx_estimated_completion_date :: "int option"
  ctx_chart_data :: "int list \<times> nat list \<times> nat list"

text \<open>The GET branch of \<^verbatim>\<open>progress\<close>: the estimate, the time series, then the context.\<close>

definition progress_get ::
  "(real \<Rightarrow> real) \<Rightarrow> AbTest_methods \<Rightarrow> AbTest \<Rightarrow> int \<Rightarrow> py_error + progress_context"
where
  "progress_get rnd m ab_test today =
     (case estimated_completion_date rnd m ab_test today of
        Inl e \<Rightarrow> Inl e
      | Inr estimate \<Rightarrow>
          (case progress_percentages rnd ab_test of
             Inl e \<Rightarrow> Inl e
           | Inr (current_sample_size_percent, control_conversions_percent,
                  treatment_conversions_percent) \<Rightarrow>
               Inr \<lparr>ctx_current_sample_size = current_sample_size (hourly_logs ab_test),
                    ctx_current_sample_size_percent = current_sample_size_percent,
                    ctx_control_conversions = control_conversions (hourly_logs ab_test),
                    ctx_control_participants = control_participants (hourly_logs ab_test),
                    ctx_control_conversions_percent = control_conversions_percent,
                    ctx_treatment_conversions = treatment_conversions (hourly_logs ab_test),
                    ctx_treatment_participants = treatment_participants (hourly_logs ab_test),
                    ctx_treatment_conversions_percent = treatment_conversions_percent,
                    ctx_control_is_winner = (winning_variant ab_test = Some CONTROL),
                    ctx_treatment_is_winner = (winning_variant ab_test = Some TREATMENT),
                    ctx_estimated_completion_date = estimate,
                    ctx_chart_data =
                      (map date_point (time_series (hourly_logs ab_test)),
                       map control_point (time_series (hourly_logs ab_test)),
                       map treatment_point (time_series (hourly_logs ab_test)))\<rparr>))"

text \<open>\<^verbatim>\<open>progress(request, page, ab_test)\<close>: the response, the A/B test afterwards and the
  messages queued.\<close>

definition progress ::
  "(real \<Rightarrow> real) \<Rightarrow> AbTest_methods \<Rightarrow> Request \<Rightarrow> Page \<Rightarrow> AbTest \<Rightarrow> int
     \<Rightarrow> (py_error + progress_context HttpResponse) \<times> AbTest \<times> message list"
where
  "progress rnd m request p ab_test today =
     (if request_method request = ''POST'' then
        (case progress_post m request ab_test of
           (ab_test', queued) \<Rightarrow>
             (Inr (Redirect ''wagtailadmin_pages:edit'' (page_id p)), ab_test', queued))
      else
        (case progress_get rnd m ab_test today of
           Inl e \<Rightarrow> (Inl e, ab_test, [])
         | Inr context \<Rightarrow> (Inr (Render ''wagtail_ab_testing/progress.html'' context), ab_test, [])))"

subsection \<open>Notions of the specification\<close>

text \<open>The cumulative total the specification gives for a day: the conversions of a variant
  in all rows dated that day or earlier.\<close>

definition conversions_up_to :: "Variant \<Rightarrow> int \<Rightarrow> HourlyLog list \<Rightarrow> nat" where
  "conversions_up_to v day rows =
     sum_list (map conversions (filter (\<lambda>row. variant row = v \<and> date row \<le> day) rows))"

text \<open>The action a POST request asks for, read off the posted keys in the order of the
  \<^verbatim>\<open>if\<close>/\<^verbatim>\<open>elif\<close> chain (start and restart are one action).\<close>

datatype action = Start | End | Pause | Unknown

definition submitted_action :: "Request \<Rightarrow> action" where
  "submitted_action request =
     (if ''action-start-ab-test'' \<in> set (map fst (POST request))
         \<or> ''action-restart-ab-test'' \<in> set (map fst (POST request)) then Start
      else if ''action-end-ab-test'' \<in> set (map fst (POST request)) then End
      else if ''action-pause-ab-test'' \<in> set (map fst (POST request)) then Pause
      else Unknown)"

text \<open>The legal set of each action, in the words of the specification: start or restart
  from Draft or Paused, pause from Running, end from Draft, Running or Paused; an unknown
  action is never legal.\<close>

fun legal :: "action \<Rightarrow> Status \<Rightarrow> bool" where
  "legal Start st = (st = DRAFT \<or> st = PAUSED)"
| "legal Pause st = (st = RUNNING)"
| "legal End st = (st = DRAFT \<or> st = RUNNING \<or> st = PAUSED)"
| "legal Unknown st = False"

text \<open>The transition of an action: the method of the A/B test it calls.\<close>

fun transition :: "AbTest_methods \<Rightarrow> action \<Rightarrow> AbTest \<Rightarrow> AbTest" where
  "transition m Start ab_test = start m ab_test"
| "transition m End ab_test = finish m True ab_test"
| "transition m Pause ab_test = pause m ab_test"
| "transition m Unknown ab_test = ab_test"

text \<open>The accuracy of a rounding: the relative error of every rounded value is at most
  \<open>eps\<close>. Exact arithmetic has \<open>eps = 0\<close>; the round-to-nearest of binary64 has
  \<open>eps = 2\<^sup>-\<^sup>5\<^sup>3\<close> on the quotients and products of counts, which neither overflow nor
  underflow.\<close>

definition rounds_within :: "real \<Rightarrow> (real \<Rightarrow> real) \<Rightarrow> bool" where
  "rounds_within eps rnd = (\<forall>x. \<bar>rnd x - x\<bar> \<le> eps * \<bar>x\<bar>)"

subsection \<open>Instances for evaluation\<close>

text \<open>Exact arithmetic as the rounding, methods that follow the life cycle of the
  specification with a running duration of five days, and a form that is valid when a name
  was posted.\<close>

definition exact :: "real \<Rightarrow> real" where
  "exact x = x"

definition life_cycle :: AbTest_methods where
  "life_cycle =
     \<lparr>start = (\<lambda>ab_test. ab_test\<lparr>status := RUNNING\<rparr>),
      pause = (\<lambda>ab_test. ab_test\<lparr>status := PAUSED\<rparr>),
      finish = (\<lambda>cancel ab_test. ab_test\<lparr>status := FINISHED\<rparr>),
      total_running_duration_days = (\<lambda>ab_test. 5)\<rparr>"

definition named_form :: "(string \<times> string) list \<Rightarrow> AbTest option" where
  "named_form data =
     (case map_of data ''name'' of
        None \<Rightarrow> None
      | Some n \<Rightarrow>
          Some \<lparr>name = n, page = 0, treatment_revision = 0, created_by = 0, sample_size = 100,
                status = DRAFT, winning_variant = None, hourly_logs = []\<rparr>)"

section \<open>Facts\<close>

subsection \<open>The inner loop in closed form\<close>

lemma fill_days_None:
  "fill_days None log_date c t ts =
     (Some log_date, ts @ [\<lparr>date_point = log_date, control_point = c, treatment_point = t\<rparr>])"
  by (simp add: fill_days.simps [of None] fill_days.simps [of "Some log_date"])

lemma fill_days_Some:
  "fill_days (Some d) log_date c t ts =
     (Some (max d log_date),
      ts @ map (\<lambda>k. \<lparr>date_point = k, control_point = c, treatment_point = t\<rparr>) [d + 1..log_date])"
proof (induction "Some d" log_date c t ts arbitrary: d rule: fill_days.induct)
  case (1 log_date c t ts)
  show ?case
  proof (cases "d < log_date")
    case True
    then have "[d + 1..log_date] = (d + 1) # [d + 1 + 1..log_date]"
      by (simp add: upto_rec1)
    with True "1.hyps"(2) [of d] show ?thesis
      by (simp add: fill_days.simps [of "Some d"] max_def)
  next
    case False
    then show ?thesis
      by (simp add: fill_days.simps [of "Some d"] max_def)
  qed
qed

lemma fill_days_appends:
  "\<exists>day' ks. fill_days day log_date c t ts =
     (day', ts @ map (\<lambda>k. \<lparr>date_point = k, control_point = c, treatment_point = t\<rparr>) ks)"
proof (cases day)
  case None
  have "fill_days None log_date c t ts =
     (Some log_date,
      ts @ map (\<lambda>k. \<lparr>date_point = k, control_point = c, treatment_point = t\<rparr>) [log_date])"
    by (simp add: fill_days_None)
  with None show ?thesis by blast
next
  case (Some d)
  then show ?thesis by (simp add: fill_days_Some) blast
qed

lemma date_point_map_const:
  "map (date_point \<circ> (\<lambda>k. \<lparr>date_point = k, control_point = c, treatment_point = t\<rparr>)) ks = ks"
  by (induction ks) simp_all

subsection \<open>The days and the columns of the time series\<close>

lemma series_loop_dates:
  "sorted (map date logs) \<Longrightarrow> \<forall>row \<in> set logs. d \<le> date row \<Longrightarrow>
   map date_point ts = [d0..d] \<Longrightarrow> d0 \<le> d \<Longrightarrow>
   map date_point (series_loop logs c t (Some d) ts) = [d0..last (d # map date logs)]"
proof (induction logs arbitrary: c t d ts)
  case Nil
  then show ?case by simp
next
  case (Cons row logs)
  define c' where "c' = (if variant row = CONTROL then c + conversions row else c)"
  define t' where "t' = (if variant row = CONTROL then t else t + conversions row)"
  define ts' where
    "ts' = ts @ map (\<lambda>k. \<lparr>date_point = k, control_point = c', treatment_point = t'\<rparr>)
                  [d + 1..date row]"
  from Cons.prems have le: "d \<le> date row" by simp
  have dates: "map date_point ts' = [d0..date row]"
    using Cons.prems(3,4) le
    by (simp add: ts'_def date_point_map_const upto_split2 [of d0 d "date row"])
  have "map date_point (series_loop logs c' t' (Some (date row)) ts') =
          [d0..last (date row # map date logs)]"
  proof (rule Cons.IH [OF _ _ dates])
    show "sorted (map date logs)" using Cons.prems(1) by simp
    show "\<forall>r \<in> set logs. date row \<le> date r" using Cons.prems(1) by simp
    show "d0 \<le> date row" using Cons.prems(4) le by simp
  qed
  moreover have "series_loop (row # logs) c t (Some d) ts =
      series_loop logs c' t' (Some (date row)) ts'"
    using le by (simp add: fill_days_Some max_def Let_def c'_def t'_def ts'_def)
  ultimately show ?case by simp
qed

lemma series_loop_control_sorted:
  "sorted (map control_point ts) \<Longrightarrow> \<forall>p \<in> set ts. control_point p \<le> c \<Longrightarrow>
   sorted (map control_point (series_loop logs c t day ts))"
proof (induction logs arbitrary: c t day ts)
  case Nil
  then show ?case by simp
next
  case (Cons row logs)
  define c' where "c' = (if variant row = CONTROL then c + conversions row else c)"
  define t' where "t' = (if variant row = CONTROL then t else t + conversions row)"
  obtain day' ts' where fill: "fill_days day (date row) c' t' ts = (day', ts')"
    by (cases "fill_days day (date row) c' t' ts")
  have "c \<le> c'" by (simp add: c'_def)
  with Cons.prems(2) have below: "\<forall>p \<in> set ts. control_point p \<le> c'" by auto
  obtain ks where ts':
    "ts' = ts @ map (\<lambda>k. \<lparr>date_point = k, control_point = c', treatment_point = t'\<rparr>) ks"
    using fill fill_days_appends [of day "date row" c' t' ts] by auto
  have "sorted (map control_point ts')"
    using Cons.prems(1) below by (auto simp: ts' sorted_append sorted_map)
  moreover have "\<forall>p \<in> set ts'. control_point p \<le> c'"
    using below by (auto simp: ts')
  ultimately have "sorted (map control_point (series_loop logs c' t' day' ts'))"
    by (rule Cons.IH)
  then show ?case
    using fill by (simp add: Let_def c'_def t'_def)
qed

lemma series_loop_treatment_sorted:
  "sorted (map treatment_point ts) \<Longrightarrow> \<forall>p \<in> set ts. treatment_point p \<le> t \<Longrightarrow>
   sorted (map treatment_point (series_loop logs c t day ts))"
proof (induction logs arbitrary: c t day ts)
  case Nil
  then show ?case by simp
next
  case (Cons row logs)
  define c' where "c' = (if variant row = CONTROL then c + conversions row else c)"
  define t' where "t' = (if variant row = CONTROL then t else t + conversions row)"
  obtain day' ts' where fill: "fill_days day (date row) c' t' ts = (day', ts')"
    by (cases "fill_days day (date row) c' t' ts")
  have "t \<le> t'" by (simp add: t'_def)
  with Cons.prems(2) have below: "\<forall>p \<in> set ts. treatment_point p \<le> t'" by auto
  obtain ks where ts':
    "ts' = ts @ map (\<lambda>k. \<lparr>date_point = k, control_point = c', treatment_point = t'\<rparr>) ks"
    using fill fill_days_appends [of day "date row" c' t' ts] by auto
  have "sorted (map treatment_point ts')"
    using Cons.prems(1) below by (auto simp: ts' sorted_append sorted_map)
  moreover have "\<forall>p \<in> set ts'. treatment_point p \<le> t'"
    using below by (auto simp: ts')
  ultimately have "sorted (map treatment_point (series_loop logs c' t' day' ts'))"
    by (rule Cons.IH)
  then show ?case
    using fill by (simp add: Let_def c'_def t'_def)
qed

lemma sorted_dates_order_by: "sorted (map date (order_by_date_hour rows))"
proof -
  have "sorted (map (\<lambda>row. (date row, hour row)) (order_by_date_hour rows))"
    by (simp add: order_by_date_hour_def)
  then have "sorted_wrt (\<lambda>a b. (date a, hour a) \<le> (date b, hour b))
               (order_by_date_hour rows)"
    by (simp add: sorted_map)
  then have "sorted_wrt (\<lambda>a b. date a \<le> date b) (order_by_date_hour rows)"
    by (rule sorted_wrt_mono_rel [rotated]) auto
  then show ?thesis by (simp add: sorted_map)
qed

lemma series_loop_days:
  assumes "sorted (map date logs)" "logs \<noteq> []"
  shows "map date_point (series_loop logs 0 0 None []) = [date (hd logs)..date (last logs)]"
proof -
  from assms(2) obtain row rest where logs: "logs = row # rest" by (cases logs) auto
  define c' where "c' = (if variant row = CONTROL then 0 + conversions row else 0)"
  define t' where "t' = (if variant row = CONTROL then 0 else 0 + conversions row)"
  have step: "series_loop (row # rest) 0 0 None [] =
      series_loop rest c' t' (Some (date row))
        [\<lparr>date_point = date row, control_point = c', treatment_point = t'\<rparr>]"
    by (simp add: fill_days_None Let_def c'_def t'_def)
  have "map date_point (series_loop rest c' t' (Some (date row))
        [\<lparr>date_point = date row, control_point = c', treatment_point = t'\<rparr>]) =
      [date row..last (date row # map date rest)]"
    using assms(1) by (intro series_loop_dates) (simp_all add: logs)
  moreover have "last (date row # map date rest) = date (last (row # rest))"
    by (simp add: last_map)
  ultimately have "map date_point (series_loop (row # rest) 0 0 None []) =
      [date row..date (last (row # rest))]"
    by (simp only: step)
  then show ?thesis by (simp only: logs list.sel)
qed

text \<open>
  C2. For a test with at least one hourly log row, the time series has exactly one entry
  for each calendar day from the date of the first row to the date of the last row (in the
  order of \<^verbatim>\<open>order_by('date', 'hour')\<close>), in ascending order; both cumulative columns never
  decrease from one entry to the next; without rows the time series is empty.
\<close>

theorem time_series_days:
  "(rows \<noteq> [] \<longrightarrow>
      map date_point (time_series rows) =
        [date (hd (order_by_date_hour rows))..
         date (last (order_by_date_hour rows))])
   \<and> sorted (map control_point (time_series rows))
   \<and> sorted (map treatment_point (time_series rows))
   \<and> time_series [] = []"
proof -
  have "order_by_date_hour rows \<noteq> []" if "rows \<noteq> []"
    using that by (metis order_by_date_hour_def length_sort length_0_conv)
  then have "rows \<noteq> [] \<longrightarrow>
      map date_point (time_series rows) =
        [date (hd (order_by_date_hour rows))..
         date (last (order_by_date_hour rows))]"
    unfolding time_series_def using series_loop_days [OF sorted_dates_order_by] by blast
  moreover have "sorted (map control_point (time_series rows))"
    unfolding time_series_def by (rule series_loop_control_sorted) simp_all
  moreover have "sorted (map treatment_point (time_series rows))"
    unfolding time_series_def by (rule series_loop_treatment_sorted) simp_all
  moreover have "time_series [] = []"
    by (simp add: time_series_def order_by_date_hour_def)
  ultimately show ?thesis by blast
qed

theorem time_series_days_witness:
  "[\<lparr>date = 13, hour = 5, variant = TREATMENT, participants = 4, conversions = 2\<rparr>,
    \<lparr>date = 10, hour = 7, variant = CONTROL, participants = 3, conversions = 1\<rparr>] \<noteq> []
   \<and> map date_point (time_series
       [\<lparr>date = 13, hour = 5, variant = TREATMENT, participants = 4, conversions = 2\<rparr>,
        \<lparr>date = 10, hour = 7, variant = CONTROL, participants = 3, conversions = 1\<rparr>]) =
       [10, 11, 12, 13]
   \<and> sorted (map control_point (time_series
       [\<lparr>date = 13, hour = 5, variant = TREATMENT, participants = 4, conversions = 2\<rparr>,
        \<lparr>date = 10, hour = 7, variant = CONTROL, participants = 3, conversions = 1\<rparr>]))
   \<and> sorted (map treatment_point (time_series
       [\<lparr>date = 13, hour = 5, variant = TREATMENT, participants = 4, conversions = 2\<rparr>,
        \<lparr>date = 10, hour = 7, variant = CONTROL, participants = 3, conversions = 1\<rparr>]))"
  using time_series_days
    [of "[\<lparr>date = 13, hour = 5, variant = TREATMENT, participants = 4, conversions = 2\<rparr>,
          \<lparr>date = 10, hour = 7, variant = CONTROL, participants = 3, conversions = 1\<rparr>]"]
  by (simp add: order_by_date_hour_def)

text \<open>
  C1. The claim: the cumulative totals of the entry for day D are the conversions of all
  rows dated D or earlier, a gap day carries the totals of the last day with rows, and a day
  with rows includes every row of that day. The code appends the entry of a day when it
  meets the first row dated that day or later, after adding only that row: with two control
  rows on day 10 (1 and 2 conversions) and one on day 12 (4 conversions) the entry of day 10
  shows 1 where the rows up to day 10 hold 3, and the entry of the gap day 11 shows 7 where
  they hold 3.
\<close>

theorem time_series_entry_misses_rows:
  "time_series
     [\<lparr>date = 10, hour = 0, variant = CONTROL, participants = 0, conversions = 1\<rparr>,
      \<lparr>date = 10, hour = 1, variant = CONTROL, participants = 0, conversions = 2\<rparr>,
      \<lparr>date = 12, hour = 0, variant = CONTROL, participants = 0, conversions = 4\<rparr>] =
     [\<lparr>date_point = 10, control_point = 1, treatment_point = 0\<rparr>,
      \<lparr>date_point = 11, control_point = 7, treatment_point = 0\<rparr>,
      \<lparr>date_point = 12, control_point = 7, treatment_point = 0\<rparr>]
   \<and> conversions_up_to CONTROL 10
       [\<lparr>date = 10, hour = 0, variant = CONTROL, participants = 0, conversions = 1\<rparr>,
        \<lparr>date = 10, hour = 1, variant = CONTROL, participants = 0, conversions = 2\<rparr>,
        \<lparr>date = 12, hour = 0, variant = CONTROL, participants = 0, conversions = 4\<rparr>] = 3
   \<and> conversions_up_to CONTROL 11
       [\<lparr>date = 10, hour = 0, variant = CONTROL, participants = 0, conversions = 1\<rparr>,
        \<lparr>date = 10, hour = 1, variant = CONTROL, participants = 0, conversions = 2\<rparr>,
        \<lparr>date = 12, hour = 0, variant = CONTROL, participants = 0, conversions = 4\<rparr>] = 3"
  by (simp add: time_series_def order_by_date_hour_def fill_days_None fill_days_Some
      conversions_up_to_def)

subsection \<open>The aggregates\<close>

lemma or_0_Sum_filter:
  "or_0 (Sum_filter field v rows) =
     sum_list (map field (filter (\<lambda>row. variant row = v) rows))"
  by (cases "filter (\<lambda>row. variant row = v) rows") (simp_all add: or_0_def Sum_filter_def)

lemma sum_both_variants:
  fixes field :: "HourlyLog \<Rightarrow> nat"
  shows "sum_list (map field (filter (\<lambda>row. variant row = CONTROL) rows))
     + sum_list (map field (filter (\<lambda>row. variant row = TREATMENT) rows))
   = sum_list (map field rows)"
proof (induction rows)
  case Nil
  then show ?case by simp
next
  case (Cons row rows)
  then show ?case by (cases "variant row") auto
qed

text \<open>
  C5. The current sample size of the progress view is the sum of \<open>participants\<close> over all
  hourly log rows of both variants; without rows each of the four aggregates and the sample
  size is 0, not an error and not \<^verbatim>\<open>None\<close>.
\<close>

theorem current_sample_size_is_sum:
  "current_sample_size rows = sum_list (map participants rows)
   \<and> control_participants [] = 0 \<and> control_conversions [] = 0
   \<and> treatment_participants [] = 0 \<and> treatment_conversions [] = 0
   \<and> current_sample_size [] = 0"
  by (simp add: current_sample_size_def control_participants_def control_conversions_def
      treatment_participants_def treatment_conversions_def or_0_Sum_filter sum_both_variants
      del: sum_list.Cons)

subsection \<open>The percentages\<close>

lemma py_int_nonneg: "0 \<le> x \<Longrightarrow> py_int x = \<lfloor>x\<rfloor>"
  by (simp add: py_int_def)

lemma percent_value:
  "percent rnd a b =
     (if b = 0 then Inl ZeroDivisionError
      else Inr (py_int (rnd (rnd (real a / real b) * 100))))"
  by (simp add: percent_def truediv_def)

lemma conversions_percent_unfold:
  "conversions_percent rnd c p =
     Inr (if p = 0 then 0 else py_int (rnd (rnd (real c / real p) * 100)))"
  by (simp add: conversions_percent_def percent_value)

text \<open>A rounding of relative error at most \<open>eps\<close> keeps a value that is not negative
  between \<open>1 - eps\<close> and \<open>1 + eps\<close> times itself.\<close>

lemma rounds_within_bounds:
  assumes "rounds_within eps rnd" "0 \<le> x"
  shows "(1 - eps) * x \<le> rnd x" and "rnd x \<le> (1 + eps) * x"
proof -
  from assms have "\<bar>rnd x - x\<bar> \<le> eps * x"
    by (simp add: rounds_within_def) (metis abs_of_nonneg)
  then show "(1 - eps) * x \<le> rnd x" and "rnd x \<le> (1 + eps) * x"
    by (simp_all add: algebra_simps abs_le_iff)
qed

text \<open>\<^verbatim>\<open>int(x * 100)\<close> for a rounded rate \<open>x\<close>: two roundings, then the truncation.\<close>

lemma percent_bounds:
  assumes eps: "0 \<le> eps" "eps \<le> 1" and rnd: "rounds_within eps rnd" and x: "0 \<le> x"
  shows "(1 - eps)\<^sup>2 * (100 * x) - 1 < real_of_int (py_int (rnd (rnd x * 100)))"
    and "real_of_int (py_int (rnd (rnd x * 100))) \<le> (1 + eps)\<^sup>2 * (100 * x)"
proof -
  define q where "q = rnd x"
  define r where "r = rnd (q * 100)"
  have q_lo: "(1 - eps) * x \<le> q" and q_hi: "q \<le> (1 + eps) * x"
    using rounds_within_bounds [OF rnd x] by (simp_all add: q_def)
  have q0: "0 \<le> q"
    using q_lo eps x by (meson diff_ge_0_iff_ge mult_nonneg_nonneg order_trans)
  then have q100: "0 \<le> q * 100" by simp
  have r_lo: "(1 - eps) * (q * 100) \<le> r" and r_hi: "r \<le> (1 + eps) * (q * 100)"
    using rounds_within_bounds [OF rnd q100] by (simp_all add: r_def)
  have r0: "0 \<le> r"
    using r_lo eps q100 by (meson diff_ge_0_iff_ge mult_nonneg_nonneg order_trans)
  have "(1 - eps) * ((1 - eps) * x * 100) \<le> (1 - eps) * (q * 100)"
    using q_lo eps by (intro mult_left_mono) simp_all
  with r_lo have lo: "(1 - eps)\<^sup>2 * (100 * x) \<le> r"
    by (simp add: power2_eq_square algebra_simps)
  have "(1 + eps) * (q * 100) \<le> (1 + eps) * ((1 + eps) * x * 100)"
    using q_hi eps by (intro mult_left_mono) simp_all
  with r_hi have hi: "r \<le> (1 + eps)\<^sup>2 * (100 * x)"
    by (simp add: power2_eq_square algebra_simps)
  have k: "py_int (rnd (rnd x * 100)) = \<lfloor>r\<rfloor>"
    using r0 by (simp add: py_int_nonneg r_def q_def)
  have "r - 1 < real_of_int \<lfloor>r\<rfloor>" and "real_of_int \<lfloor>r\<rfloor> \<le> r" by linarith+
  with lo hi
  show "(1 - eps)\<^sup>2 * (100 * x) - 1 < real_of_int (py_int (rnd (rnd x * 100)))"
    and "real_of_int (py_int (rnd (rnd x * 100))) \<le> (1 + eps)\<^sup>2 * (100 * x)"
    unfolding k by linarith+
qed

text \<open>In exact arithmetic the percentage is the integer quotient of \<open>100 * c\<close> by \<open>p\<close>.\<close>

lemma exact_percent: "py_int (exact (exact (real c / real p) * 100)) = int (100 * c div p)"
proof -
  have eq: "real c / real p * 100 = real (100 * c) / real p" by simp
  have "\<lfloor>real c / real p * 100\<rfloor> = \<lfloor>real (100 * c) / real p\<rfloor>" by (simp only: eq)
  also have "\<dots> = int (100 * c div p)" by (simp only: floor_divide_of_nat_eq)
  finally show ?thesis by (simp add: exact_def py_int_def)
qed

lemma exact_rounds: "rounds_within 0 exact"
  by (simp add: rounds_within_def exact_def)

text \<open>
  C6. The claim: for each variant the conversion rate computed by the progress view equals
  \<open>conversions / participants\<close>, and is 0 when the variant has no participants. The view
  computes \<^verbatim>\<open>int(conversions / participants * 100)\<close>, a whole percentage: for 1 conversion
  of 2 participants it is 50, and the rate is 1/2.
\<close>

theorem conversions_percent_is_not_rate_counterexample:
  "conversions_percent exact 1 2 = Inr 50 \<and> real_of_int 50 \<noteq> real 1 / real 2"
  by (simp add: conversions_percent_unfold exact_def py_int_def)

text \<open>
  C6, amended. For each variant the progress view computes the conversion percentage, the
  rate \<open>conversions / participants\<close> times 100 truncated to an integer: never an error; 0
  when the variant has no participants; otherwise, for a float rounding of relative error
  at most \<open>eps\<close>, an integer \<open>k\<close> with
  \<open>(1 - eps)\<^sup>2 * 100 * c / p - 1 < k \<le> (1 + eps)\<^sup>2 * 100 * c / p\<close>, which in exact arithmetic
  is the integer quotient of \<open>100 * c\<close> by \<open>p\<close>.
\<close>

theorem conversions_percent_is_percentage:
  assumes "0 \<le> eps" "eps \<le> 1" "rounds_within eps rnd"
  shows "(\<exists>k. conversions_percent rnd c p = Inr k \<and>
            (if p = 0 then k = 0
             else (1 - eps)\<^sup>2 * (100 * (real c / real p)) - 1 < real_of_int k
                \<and> real_of_int k \<le> (1 + eps)\<^sup>2 * (100 * (real c / real p))))
         \<and> conversions_percent exact c p = Inr (if p = 0 then 0 else int (100 * c div p))"
proof -
  have "0 \<le> real c / real p" by simp
  from percent_bounds [OF assms this]
  have "\<exists>k. conversions_percent rnd c p = Inr k \<and>
            (if p = 0 then k = 0
             else (1 - eps)\<^sup>2 * (100 * (real c / real p)) - 1 < real_of_int k
                \<and> real_of_int k \<le> (1 + eps)\<^sup>2 * (100 * (real c / real p)))"
    by (simp add: conversions_percent_unfold)
  moreover have "conversions_percent exact c p = Inr (if p = 0 then 0 else int (100 * c div p))"
    by (simp add: conversions_percent_unfold exact_percent)
  ultimately show ?thesis by blast
qed

theorem conversions_percent_is_percentage_witness:
  "(0::real) \<le> 0 \<and> (0::real) \<le> 1 \<and> rounds_within 0 exact
   \<and> conversions_percent exact 1 3 = Inr 33 \<and> conversions_percent exact 7 0 = Inr 0"
proof -
  have a: "(0::real) \<le> 0" and b: "(0::real) \<le> 1" by simp_all
  show ?thesis
    using conversions_percent_is_percentage [OF a b exact_rounds, of 1 3]
      conversions_percent_is_percentage [OF a b exact_rounds, of 7 0] exact_rounds
    by simp
qed

text \<open>The three percentages of the template context: they raise exactly when \<open>sample_size\<close>
  is zero, whatever the hourly logs are, for the two conversion percentages are 0 for a
  variant without participants.\<close>

lemma progress_percentages_total:
  "progress_percentages rnd ab_test =
     (if sample_size ab_test = 0 then Inl ZeroDivisionError
      else Inr
        (py_int (rnd (rnd (real (current_sample_size (hourly_logs ab_test))
                            / real (sample_size ab_test)) * 100)),
         if control_participants (hourly_logs ab_test) = 0 then 0
         else py_int (rnd (rnd (real (control_conversions (hourly_logs ab_test))
                                 / real (control_participants (hourly_logs ab_test))) * 100)),
         if treatment_participants (hourly_logs ab_test) = 0 then 0
         else py_int (rnd (rnd (real (treatment_conversions (hourly_logs ab_test))
                                 / real (treatment_participants (hourly_logs ab_test))) * 100))))"
  by (simp add: progress_percentages_def percent_value conversions_percent_def)

lemma progress_percentages_example:
  "progress_percentages exact
     \<lparr>name = ''t'', page = 7, treatment_revision = 2, created_by = 1, sample_size = 100,
      status = RUNNING, winning_variant = None, hourly_logs =
        [\<lparr>date = 10, hour = 0, variant = TREATMENT, participants = 40, conversions = 20\<rparr>]\<rparr>
     = Inr (40, 0, 50)
   \<and> progress_percentages exact
     \<lparr>name = ''t'', page = 7, treatment_revision = 2, created_by = 1, sample_size = 0,
      status = RUNNING, winning_variant = None, hourly_logs =
        [\<lparr>date = 10, hour = 0, variant = TREATMENT, participants = 40, conversions = 20\<rparr>]\<rparr>
     = Inl ZeroDivisionError"
  by (simp add: progress_percentages_total exact_def py_int_def current_sample_size_def
      control_participants_def control_conversions_def treatment_participants_def
      treatment_conversions_def or_0_def Sum_filter_def)

subsection \<open>The estimated completion date\<close>

text \<open>Every outcome of the estimate: \<^verbatim>\<open>None\<close> outside the guards; inside them a date, or
  the error of a quotient rounded to zero, of a duration or of a date out of range.\<close>

lemma estimated_completion_date_cases:
  "estimated_completion_date rnd m ab_test today =
     (if status ab_test = RUNNING \<and> 0 < current_sample_size (hourly_logs ab_test)
           \<and> 0 < total_running_duration_days m ab_test then
        (if rnd (real (current_sample_size (hourly_logs ab_test))
                   / real_of_int (total_running_duration_days m ab_test)) = 0
         then Inl ZeroDivisionError
         else
           (let n = \<lfloor>rnd (real_of_int (int (sample_size ab_test)
                                  - int (current_sample_size (hourly_logs ab_test)))
                        / rnd (real (current_sample_size (hourly_logs ab_test))
                                 / real_of_int (total_running_duration_days m ab_test)))\<rfloor>
            in if - 999999999 \<le> n \<and> n \<le> 999999999 \<and> 0 < today + n \<and> today + n \<le> 3652059
               then Inr (Some (today + n)) else Inl OverflowError))
      else Inr None)"
  by (simp add: estimated_completion_date_def truediv_def timedelta_days_def date_add_def Let_def)

lemma estimated_completion_date_example:
  "estimated_completion_date exact life_cycle
     \<lparr>name = ''t'', page = 7, treatment_revision = 2, created_by = 1, sample_size = 100,
      status = RUNNING, winning_variant = None, hourly_logs =
        [\<lparr>date = 739920, hour = 0, variant = CONTROL, participants = 20, conversions = 1\<rparr>,
         \<lparr>date = 739920, hour = 0, variant = TREATMENT, participants = 30, conversions = 1\<rparr>]\<rparr>
     739926 = Inr (Some 739931)"
  by (simp add: estimated_completion_date_cases exact_def life_cycle_def current_sample_size_def
      control_participants_def treatment_participants_def or_0_def Sum_filter_def)

text \<open>With a \<open>sample_size\<close> that is not zero, and a rounding that never turns a quotient
  that is not zero into zero, no division of the GET branch raises: every other divisor is
  guarded.\<close>

lemma progress_get_no_zero_division:
  assumes no_underflow: "\<And>x. x \<noteq> 0 \<Longrightarrow> rnd x \<noteq> 0"
    and "sample_size ab_test \<noteq> 0"
  shows "progress_get rnd m ab_test today \<noteq> Inl ZeroDivisionError"
proof -
  have estimate: "estimated_completion_date rnd m ab_test today \<noteq> Inl ZeroDivisionError"
    using no_underflow by (auto simp: estimated_completion_date_cases Let_def)
  have "\<exists>ps. progress_percentages rnd ab_test = Inr ps"
    using assms(2) by (simp add: progress_percentages_def percent_value conversions_percent_def)
  with estimate show ?thesis
    by (auto simp: progress_get_def split: sum.splits)
qed

text \<open>
  C4. The claim: an estimated completion date is produced exactly when the test is running,
  its current sample size is positive and its running duration in whole days is positive,
  and it is today plus \<open>(sample_size - current_sample_size) / (current_sample_size / days)\<close>
  days. The code adds the days to today's date with \<^verbatim>\<open>date + timedelta\<close>, which raises
  \<^verbatim>\<open>OverflowError\<close> beyond the year 9999: a running test with a sample size of 10000000 and
  5 participants after 5 days, viewed on 2026-11-06 (ordinal 739926), has 9999995 days
  remaining, and the view raises instead of producing the date.
\<close>

theorem estimated_completion_date_overflow:
  "estimated_completion_date exact life_cycle
     \<lparr>name = ''t'', page = 7, treatment_revision = 2, created_by = 1, sample_size = 10000000,
      status = RUNNING, winning_variant = None, hourly_logs =
        [\<lparr>date = 739921, hour = 0, variant = CONTROL, participants = 5, conversions = 0\<rparr>]\<rparr>
     739926 = Inl OverflowError"
  by (simp add: estimated_completion_date_def truediv_def timedelta_days_def date_add_def
      exact_def life_cycle_def current_sample_size_def control_participants_def
      treatment_participants_def or_0_def Sum_filter_def)

subsection \<open>The GET branch as a whole\<close>

text \<open>
  C10. The claim: for every test whose \<open>sample_size\<close> is not zero, whatever its hourly logs
  are, the statistics computation of the progress view raises no arithmetic error. The
  percentages are total then (\<open>progress_percentages_total\<close>) and no division raises
  (\<open>progress_get_no_zero_division\<close>), but the view computes the estimated completion date
  first, and \<^verbatim>\<open>date + timedelta\<close> raises \<^verbatim>\<open>OverflowError\<close>, an \<^verbatim>\<open>ArithmeticError\<close> of Python,
  beyond the year 9999: the running test with a sample size of 10000000 and 5 participants
  after 5 days, viewed on 2026-11-06 (ordinal 739926), has percentages 0, 0 and 0, and the
  view raises.
\<close>

theorem progress_get_overflow:
  "sample_size
     \<lparr>name = ''t'', page = 7, treatment_revision = 2, created_by = 1, sample_size = 10000000,
      status = RUNNING, winning_variant = None, hourly_logs =
        [\<lparr>date = 739921, hour = 0, variant = CONTROL, participants = 5, conversions = 0\<rparr>]\<rparr>
     \<noteq> 0
   \<and> progress_percentages exact
     \<lparr>name = ''t'', page = 7, treatment_revision = 2, created_by = 1, sample_size = 10000000,
      status = RUNNING, winning_variant = None, hourly_logs =
        [\<lparr>date = 739921, hour = 0, variant = CONTROL, participants = 5, conversions = 0\<rparr>]\<rparr>
     = Inr (0, 0, 0)
   \<and> progress_get exact life_cycle
     \<lparr>name = ''t'', page = 7, treatment_revision = 2, created_by = 1, sample_size = 10000000,
      status = RUNNING, winning_variant = None, hourly_logs =
        [\<lparr>date = 739921, hour = 0, variant = CONTROL, participants = 5, conversions = 0\<rparr>]\<rparr>
     739926 = Inl OverflowError"
  by (simp add: progress_get_def estimated_completion_date_cases progress_percentages_total
      exact_def py_int_def life_cycle_def current_sample_size_def control_participants_def
      control_conversions_def treatment_participants_def treatment_conversions_def or_0_def
      Sum_filter_def)

subsection \<open>The actions of the progress view\<close>

text \<open>
  C3. For every status and every action posted to the progress view, the transition is
  applied exactly when the status is in the legal set of the action (start or restart:
  Draft or Paused; pause: Running; end: Draft, Running or Paused); any other request, so
  every action on a finished test and every unknown action, leaves the A/B test as it was
  and queues one error message.
\<close>

theorem progress_post_legal_only:
  "request_method request = ''POST'' \<Longrightarrow>
   (\<exists>queued.
      progress rnd m request p ab_test today =
        (Inr (Redirect ''wagtailadmin_pages:edit'' (page_id p)),
         if legal (submitted_action request) (status ab_test)
         then transition m (submitted_action request) ab_test else ab_test,
         queued)
      \<and> (\<not> legal (submitted_action request) (status ab_test) \<longrightarrow>
           (\<exists>text. queued = [(ERROR, text)])))
   \<and> \<not> legal a FINISHED \<and> \<not> legal Unknown st"
proof -
  assume post: "request_method request = ''POST''"
  have "\<not> legal a FINISHED" by (cases a) simp_all
  moreover have "\<not> legal Unknown st" by simp
  moreover have "\<exists>queued.
      progress rnd m request p ab_test today =
        (Inr (Redirect ''wagtailadmin_pages:edit'' (page_id p)),
         if legal (submitted_action request) (status ab_test)
         then transition m (submitted_action request) ab_test else ab_test,
         queued)
      \<and> (\<not> legal (submitted_action request) (status ab_test) \<longrightarrow>
           (\<exists>text. queued = [(ERROR, text)]))"
    using post by (cases "status ab_test") (simp_all add: progress_def progress_post_def submitted_action_def)
  ultimately show ?thesis by blast
qed

theorem progress_post_legal_only_witness:
  "request_method \<lparr>user = \<lparr>user_id = 1, can_edit_pages = [], perms = []\<rparr>, request_method = ''POST'',
            POST = [(''action-start-ab-test'', '''')]\<rparr> = ''POST''
   \<and> \<not> legal (submitted_action
         \<lparr>user = \<lparr>user_id = 1, can_edit_pages = [], perms = []\<rparr>, request_method = ''POST'',
          POST = [(''action-start-ab-test'', '''')]\<rparr>) FINISHED
   \<and> (\<exists>text.
        progress exact life_cycle
          \<lparr>user = \<lparr>user_id = 1, can_edit_pages = [], perms = []\<rparr>, request_method = ''POST'',
           POST = [(''action-start-ab-test'', '''')]\<rparr>
          \<lparr>page_id = 7, live = True, has_unpublished_changes = True, latest_revision = 2\<rparr>
          \<lparr>name = ''t'', page = 7, treatment_revision = 2, created_by = 1, sample_size = 100,
           status = FINISHED, winning_variant = None, hourly_logs = []\<rparr> 739926 =
        (Inr (Redirect ''wagtailadmin_pages:edit'' 7),
         \<lparr>name = ''t'', page = 7, treatment_revision = 2, created_by = 1, sample_size = 100,
          status = FINISHED, winning_variant = None, hourly_logs = []\<rparr>,
         [(ERROR, text)]))"
  using progress_post_legal_only
    [of "\<lparr>user = \<lparr>user_id = 1, can_edit_pages = [], perms = []\<rparr>, request_method = ''POST'',
          POST = [(''action-start-ab-test'', '''')]\<rparr>"
        exact life_cycle
        "\<lparr>page_id = 7, live = True, has_unpublished_changes = True, latest_revision = 2\<rparr>"
        "\<lparr>name = ''t'', page = 7, treatment_revision = 2, created_by = 1, sample_size = 100,
          status = FINISHED, winning_variant = None, hourly_logs = []\<rparr>"
        739926 Start RUNNING]
  by (auto simp: submitted_action_def)

subsection \<open>The checks before an A/B test is created\<close>

lemma add_form_denied:
  "page_id p \<notin> set (can_edit_pages (user request))
     \<or> ''wagtail_ab_testing.add_abtest'' \<notin> set (perms (user request)) \<Longrightarrow>
   add_form form m request p s = (Inl PermissionDenied, s)"
  by (auto simp: add_form_def add_ab_test_checks_def)

lemma add_form_current:
  "page_id p \<in> set (can_edit_pages (user request)) \<Longrightarrow>
   ''wagtail_ab_testing.add_abtest'' \<in> set (perms (user request)) \<Longrightarrow>
   get_current_for_page (ab_tests s) p \<noteq> None \<Longrightarrow>
   add_form form m request p s =
     (Inr (Redirect ''wagtailadmin_pages:edit'' (page_id p)),
      s\<lparr>messages := messages s @ [(ERROR, ''This page already has a running A/B test'')]\<rparr>)"
  by (simp add: add_form_def add_ab_test_checks_def)

lemma add_form_not_live:
  "page_id p \<in> set (can_edit_pages (user request)) \<Longrightarrow>
   ''wagtail_ab_testing.add_abtest'' \<in> set (perms (user request)) \<Longrightarrow>
   get_current_for_page (ab_tests s) p = None \<Longrightarrow>
   \<not> live p \<or> \<not> has_unpublished_changes p \<Longrightarrow>
   add_form form m request p s =
     (Inr (Redirect ''wagtailadmin_pages:edit'' (page_id p)),
      s\<lparr>messages := messages s @
         [(ERROR, ''To run an A/B test on this page, it must be live with draft changes.'')]\<rparr>)"
  by (auto simp: add_form_def add_ab_test_checks_def)

text \<open>
  C8. When the user may not edit the page, or lacks the permission to add A/B tests, a
  request to create an A/B test fails with \<^verbatim>\<open>PermissionDenied\<close>, and the state is the one
  before the request: no test is created and no message queued.
\<close>

theorem add_form_permission_denied:
  "page_id p \<notin> set (can_edit_pages (user request))
     \<or> ''wagtail_ab_testing.add_abtest'' \<notin> set (perms (user request)) \<Longrightarrow>
   add_ab_test_checks request p s = (Inl PermissionDenied, s)
   \<and> add_form form m request p s = (Inl PermissionDenied, s)"
  by (auto simp: add_form_denied add_ab_test_checks_def)

theorem add_form_permission_denied_witness:
  "(7 \<notin> set (can_edit_pages (user
        \<lparr>user = \<lparr>user_id = 1, can_edit_pages = [], perms = [''wagtail_ab_testing.add_abtest'']\<rparr>,
         request_method = ''POST'', POST = [(''name'', ''t''), (''start'', '''')]\<rparr>)))
   \<and> add_form named_form life_cycle
        \<lparr>user = \<lparr>user_id = 1, can_edit_pages = [], perms = [''wagtail_ab_testing.add_abtest'']\<rparr>,
         request_method = ''POST'', POST = [(''name'', ''t''), (''start'', '''')]\<rparr>
        \<lparr>page_id = 7, live = True, has_unpublished_changes = True, latest_revision = 2\<rparr>
        \<lparr>ab_tests = [], messages = []\<rparr> =
      (Inl PermissionDenied, \<lparr>ab_tests = [], messages = []\<rparr>)"
  using add_form_permission_denied
    [of "\<lparr>page_id = 7, live = True, has_unpublished_changes = True, latest_revision = 2\<rparr>"
        "\<lparr>user = \<lparr>user_id = 1, can_edit_pages = [], perms = [''wagtail_ab_testing.add_abtest'']\<rparr>,
          request_method = ''POST'', POST = [(''name'', ''t''), (''start'', '''')]\<rparr>"
        "\<lparr>ab_tests = [], messages = []\<rparr>" named_form life_cycle]
  by simp

text \<open>
  C7. The claim: on a page that has a current (Draft, Running or Paused) A/B test, every
  request to create another one is answered by an error message and a redirect, and no test
  is created. The permission checks come first: a user who may not edit the page gets
  \<^verbatim>\<open>PermissionDenied\<close>, without message and without redirect.
\<close>

theorem add_form_current_test_counterexample:
  "get_current_for_page
     (ab_tests \<lparr>ab_tests =
        [\<lparr>name = ''first'', page = 7, treatment_revision = 1, created_by = 1, sample_size = 100,
          status = RUNNING, winning_variant = None, hourly_logs = []\<rparr>], messages = []\<rparr>)
     \<lparr>page_id = 7, live = True, has_unpublished_changes = True, latest_revision = 2\<rparr> \<noteq> None
   \<and> add_form named_form life_cycle
        \<lparr>user = \<lparr>user_id = 2, can_edit_pages = [], perms = [''wagtail_ab_testing.add_abtest'']\<rparr>,
         request_method = ''POST'', POST = [(''name'', ''second'')]\<rparr>
        \<lparr>page_id = 7, live = True, has_unpublished_changes = True, latest_revision = 2\<rparr>
        \<lparr>ab_tests =
          [\<lparr>name = ''first'', page = 7, treatment_revision = 1, created_by = 1, sample_size = 100,
            status = RUNNING, winning_variant = None, hourly_logs = []\<rparr>], messages = []\<rparr> =
      (Inl PermissionDenied,
       \<lparr>ab_tests =
          [\<lparr>name = ''first'', page = 7, treatment_revision = 1, created_by = 1, sample_size = 100,
            status = RUNNING, winning_variant = None, hourly_logs = []\<rparr>], messages = []\<rparr>)"
  by (simp add: get_current_for_page_def add_form_def add_ab_test_checks_def)

text \<open>
  C7, amended. On a page that has a current A/B test, a request to create another one by a
  user who holds both permissions is answered by the error message and a redirect to the
  page editor; a request by a user who lacks one of them fails with \<^verbatim>\<open>PermissionDenied\<close>; in
  both cases the table of A/B tests is unchanged, so no test is created and at most one
  current test per page remains.
\<close>

theorem add_form_rejects_second_test:
  "get_current_for_page (ab_tests s) p \<noteq> None \<Longrightarrow>
   add_form form m request p s =
     (if page_id p \<in> set (can_edit_pages (user request))
         \<and> ''wagtail_ab_testing.add_abtest'' \<in> set (perms (user request))
      then (Inr (Redirect ''wagtailadmin_pages:edit'' (page_id p)),
            s\<lparr>messages := messages s @ [(ERROR, ''This page already has a running A/B test'')]\<rparr>)
      else (Inl PermissionDenied, s))
   \<and> ab_tests (snd (add_form form m request p s)) = ab_tests s"
  by (auto simp: add_form_denied add_form_current)

theorem add_form_rejects_second_test_witness:
  "get_current_for_page
     (ab_tests \<lparr>ab_tests =
        [\<lparr>name = ''first'', page = 7, treatment_revision = 1, created_by = 1, sample_size = 100,
          status = PAUSED, winning_variant = None, hourly_logs = []\<rparr>], messages = []\<rparr>)
     \<lparr>page_id = 7, live = True, has_unpublished_changes = True, latest_revision = 2\<rparr> \<noteq> None
   \<and> add_form named_form life_cycle
        \<lparr>user = \<lparr>user_id = 2, can_edit_pages = [7], perms = [''wagtail_ab_testing.add_abtest'']\<rparr>,
         request_method = ''POST'', POST = [(''name'', ''second''), (''start'', '''')]\<rparr>
        \<lparr>page_id = 7, live = True, has_unpublished_changes = True, latest_revision = 2\<rparr>
        \<lparr>ab_tests =
          [\<lparr>name = ''first'', page = 7, treatment_revision = 1, created_by = 1, sample_size = 100,
            status = PAUSED, winning_variant = None, hourly_logs = []\<rparr>], messages = []\<rparr> =
      (Inr (Redirect ''wagtailadmin_pages:edit'' 7),
       \<lparr>ab_tests =
          [\<lparr>name = ''first'', page = 7, treatment_revision = 1, created_by = 1, sample_size = 100,
            status = PAUSED, winning_variant = None, hourly_logs = []\<rparr>],
        messages = [(ERROR, ''This page already has a running A/B test'')]\<rparr>)"
  using add_form_rejects_second_test
    [of "\<lparr>ab_tests =
          [\<lparr>name = ''first'', page = 7, treatment_revision = 1, created_by = 1, sample_size = 100,
            status = PAUSED, winning_variant = None, hourly_logs = []\<rparr>], messages = []\<rparr>"
        "\<lparr>page_id = 7, live = True, has_unpublished_changes = True, latest_revision = 2\<rparr>"
        named_form life_cycle
        "\<lparr>user = \<lparr>user_id = 2, can_edit_pages = [7], perms = [''wagtail_ab_testing.add_abtest'']\<rparr>,
          request_method = ''POST'', POST = [(''name'', ''second''), (''start'', '''')]\<rparr>"]
  by (simp add: get_current_for_page_def)

text \<open>
  C9. The claim: on a page that is not live or has no unpublished changes, every request to
  create an A/B test is answered by an error message and a redirect, and no test is created.
  The permission checks come first: a user without the permission to add A/B tests gets
  \<^verbatim>\<open>PermissionDenied\<close>, without message and without redirect.
\<close>

theorem add_form_not_live_counterexample:
  "\<not> live \<lparr>page_id = 7, live = False, has_unpublished_changes = True, latest_revision = 2\<rparr>
   \<and> add_form named_form life_cycle
        \<lparr>user = \<lparr>user_id = 2, can_edit_pages = [7], perms = []\<rparr>,
         request_method = ''POST'', POST = [(''name'', ''second'')]\<rparr>
        \<lparr>page_id = 7, live = False, has_unpublished_changes = True, latest_revision = 2\<rparr>
        \<lparr>ab_tests = [], messages = []\<rparr> =
      (Inl PermissionDenied, \<lparr>ab_tests = [], messages = []\<rparr>)"
  by (simp add: add_form_def add_ab_test_checks_def)

text \<open>
  C9, amended. On a page that is not live or has no unpublished changes, a request to create
  an A/B test by a user who holds both permissions is answered by an error message (the one
  about the running test when the page has a current test, else the one about the page) and
  a redirect to the page editor; a request by a user who lacks one of them fails with
  \<^verbatim>\<open>PermissionDenied\<close>; in both cases the table of A/B tests is unchanged.
\<close>

theorem add_form_rejects_page_not_ready:
  "\<not> live p \<or> \<not> has_unpublished_changes p \<Longrightarrow>
   add_form form m request p s =
     (if page_id p \<in> set (can_edit_pages (user request))
         \<and> ''wagtail_ab_testing.add_abtest'' \<in> set (perms (user request))
      then (Inr (Redirect ''wagtailadmin_pages:edit'' (page_id p)),
            s\<lparr>messages := messages s @
               [(ERROR,
                 if get_current_for_page (ab_tests s) p \<noteq> None
                 then ''This page already has a running A/B test''
                 else ''To run an A/B test on this page, it must be live with draft changes.'')]\<rparr>)
      else (Inl PermissionDenied, s))
   \<and> ab_tests (snd (add_form form m request p s)) = ab_tests s"
proof -
  assume not_ready: "\<not> live p \<or> \<not> has_unpublished_changes p"
  show ?thesis
  proof (cases "page_id p \<in> set (can_edit_pages (user request))
         \<and> ''wagtail_ab_testing.add_abtest'' \<in> set (perms (user request))")
    case False
    then show ?thesis by (auto simp: add_form_denied)
  next
    case allowed: True
    show ?thesis
    proof (cases "get_current_for_page (ab_tests s) p = None")
      case True
      with allowed not_ready show ?thesis by (simp add: add_form_not_live)
    next
      case False
      with allowed show ?thesis by (simp add: add_form_current)
    qed
  qed
qed

theorem add_form_rejects_page_not_ready_witness:
  "\<not> has_unpublished_changes
       \<lparr>page_id = 7, live = True, has_unpublished_changes = False, latest_revision = 2\<rparr>
   \<and> add_form named_form life_cycle
        \<lparr>user = \<lparr>user_id = 2, can_edit_pages = [7], perms = [''wagtail_ab_testing.add_abtest'']\<rparr>,
         request_method = ''POST'', POST = [(''name'', ''second''), (''start'', '''')]\<rparr>
        \<lparr>page_id = 7, live = True, has_unpublished_changes = False, latest_revision = 2\<rparr>
        \<lparr>ab_tests = [], messages = []\<rparr> =
      (Inr (Redirect ''wagtailadmin_pages:edit'' 7),
       \<lparr>ab_tests = [],
        messages =
          [(ERROR, ''To run an A/B test on this page, it must be live with draft changes.'')]\<rparr>)"
  using add_form_rejects_page_not_ready
    [of "\<lparr>page_id = 7, live = True, has_unpublished_changes = False, latest_revision = 2\<rparr>"
        named_form life_cycle
        "\<lparr>user = \<lparr>user_id = 2, can_edit_pages = [7], perms = [''wagtail_ab_testing.add_abtest'']\<rparr>,
          request_method = ''POST'', POST = [(''name'', ''second''), (''start'', '''')]\<rparr>"
        "\<lparr>ab_tests = [], messages = []\<rparr>"]
  by (simp add: get_current_for_page_def)

text \<open>When every check passes and the form is valid, the test is created (and started when
  \<^verbatim>\<open>'start'\<close> was posted): the checks above are what keeps a request from creating one.\<close>

lemma add_form_creates:
  "add_form named_form life_cycle
     \<lparr>user = \<lparr>user_id = 2, can_edit_pages = [7], perms = [''wagtail_ab_testing.add_abtest'']\<rparr>,
      request_method = ''POST'', POST = [(''name'', ''second''), (''start'', '''')]\<rparr>
     \<lparr>page_id = 7, live = True, has_unpublished_changes = True, latest_revision = 2\<rparr>
     \<lparr>ab_tests = [], messages = []\<rparr> =
   (Inr (Redirect ''wagtailadmin_pages:edit'' 7),
    \<lparr>ab_tests =
       [\<lparr>name = ''second'', page = 7, treatment_revision = 2, created_by = 2, sample_size = 100,
         status = RUNNING, winning_variant = None, hourly_logs = []\<rparr>],
     messages = []\<rparr>)"
  by (simp add: add_form_def add_ab_test_checks_def get_current_for_page_def named_form_def
      life_cycle_def CreateAbTestForm_save_def)

end
